theory Spec2Isabelle
  imports Complex_Main "HOL-Library.Word" "HOL-Library.Multiset"
begin

section \<open>JavaScript values used by the two scripts\<close>

text \<open>
  The repository holds two variants of \<^verbatim>\<open>script.js\<close>: the basic one (random
  predictions, text output; the file without a name among the sources) and the enhanced
  one (wizard, TensorFlow.js model, charts; \<^verbatim>\<open>script.js\<close>). Where both define a
  function of the same name, the names here end in \<open>_basic\<close> and \<open>_enhanced\<close>.
  A JavaScript string is a sequence of UTF-16 code units; \<^verbatim>\<open>length\<close>,
  \<^verbatim>\<open>split('')\<close> and \<^verbatim>\<open>charCodeAt\<close> all count code units.
\<close>

type_synonym jsstring = "16 word list"

text \<open>String literals of the source (all ASCII unless written out as code units).\<close>

definition js :: "string \<Rightarrow> jsstring" where
  "js s = map of_char s"

text \<open>
  The errors a handler can throw. \<open>TypeError\<close> is what the engine raises on a property
  read of \<^verbatim>\<open>null\<close> or \<^verbatim>\<open>undefined\<close>.
\<close>

datatype js_error = TypeError

text \<open>
  \<^verbatim>\<open>Math.random()\<close> is a global generator. It is modelled as the infinite sequence
  of the numbers it is going to return, each in \<open>[0, 1)\<close>; a function that calls it
  takes the sequence and hands back what is left of it. The numbers are the exact
  values of the doubles, as real numbers.
\<close>

type_synonym rng = "nat \<Rightarrow> real"

definition unit_draws :: "rng \<Rightarrow> bool" where
  "unit_draws g = (\<forall>k. 0 \<le> g k \<and> g k < 1)"

definition rest :: "rng \<Rightarrow> rng" where
  "rest g = (\<lambda>k. g (Suc k))"

subsection \<open>String and number built-ins\<close>

text \<open>\<^verbatim>\<open>String.prototype.trim\<close>: strips WhiteSpace and LineTerminator code units.\<close>

definition is_ws :: "16 word \<Rightarrow> bool" where
  "is_ws c = (c \<in> set [0x9, 0xA, 0xB, 0xC, 0xD, 0x20, 0xA0, 0x1680, 0x2028, 0x2029,
                        0x202F, 0x205F, 0x3000, 0xFEFF]
              \<or> (0x2000 \<le> c \<and> c \<le> 0x200A))"

definition trim :: "jsstring \<Rightarrow> jsstring" where
  "trim s = rev (dropWhile is_ws (rev (dropWhile is_ws s)))"

text \<open>
  \<^verbatim>\<open>s.substr(start, len)\<close> and \<^verbatim>\<open>s.slice(from, to)\<close> for the non-negative
  literal arguments the source passes; both clamp to the end of the string.
\<close>

definition substr :: "'a list \<Rightarrow> nat \<Rightarrow> nat \<Rightarrow> 'a list" where
  "substr s start len = take len (drop start s)"

definition slice :: "'a list \<Rightarrow> nat \<Rightarrow> nat \<Rightarrow> 'a list" where
  "slice s from to = drop from (take to s)"

text \<open>
  \<^verbatim>\<open>toUpperCase\<close> on the characters \<^verbatim>\<open>Number.prototype.toString(36)\<close> can
  produce (digits, \<^verbatim>\<open>a\<close>-\<^verbatim>\<open>z\<close>, \<^verbatim>\<open>.\<close>, \<^verbatim>\<open>-\<close>): the letters
  \<^verbatim>\<open>a\<close>-\<^verbatim>\<open>z\<close> move to \<^verbatim>\<open>A\<close>-\<^verbatim>\<open>Z\<close>, every other code unit of that
  alphabet stays.
\<close>

definition upper_unit :: "16 word \<Rightarrow> 16 word" where
  "upper_unit c = (if 0x61 \<le> c \<and> c \<le> 0x7A then c - 0x20 else c)"

definition toUpperCase :: "jsstring \<Rightarrow> jsstring" where
  "toUpperCase s = map upper_unit s"

text \<open>\<^verbatim>\<open>xs.join(sep)\<close> on an array of strings.\<close>

fun join :: "jsstring \<Rightarrow> jsstring list \<Rightarrow> jsstring" where
  "join sep [] = []"
| "join sep [x] = x"
| "join sep (x # y # ys) = x @ sep @ join sep (y # ys)"

text \<open>Decimal digits of a natural number, most significant first.\<close>

definition digit :: "nat \<Rightarrow> 16 word" where
  "digit d = of_nat (48 + d)"

fun dec :: "nat \<Rightarrow> jsstring" where
  "dec n = (if n < 10 then [digit n] else dec (n div 10) @ [digit (n mod 10)])"

declare dec.simps [simp del]

text \<open>
  \<^verbatim>\<open>x.toFixed(f)\<close> (ECMAScript, Number.prototype.toFixed): the sign is split off,
  \<open>n\<close> is the integer nearest to \<open>|x| * 10^f\<close> (the larger one on a tie), its digits
  are padded with zeros to at least \<open>f + 1\<close> places and the point is put before the
  last \<open>f\<close>. Every call of the source has \<open>|x| < 10^21\<close>, below the magnitude at
  which the engine switches to exponent notation.
\<close>

definition toFixed :: "real \<Rightarrow> nat \<Rightarrow> jsstring" where
  "toFixed x f =
     (let s = (if x < 0 then js ''-'' else []);
          n = nat \<lfloor>\<bar>x\<bar> * 10 ^ f + 1 / 2\<rfloor>;
          m = dec n;
          m = (if f \<noteq> 0 \<and> length m \<le> f then replicate (f + 1 - length m) (digit 0) @ m else m);
          k = length m
      in if f \<noteq> 0 then s @ take (k - f) m @ js ''.'' @ drop (k - f) m else s @ m)"


section \<open>Randomizer\<close>

text \<open>
  The destructuring swap \<^verbatim>\<open>[a[i], a[j]] = [a[j], a[i]]\<close>: both reads happen first,
  then \<^verbatim>\<open>a[i]\<close> and \<^verbatim>\<open>a[j]\<close> are written in this order.
\<close>

definition swap :: "'a list \<Rightarrow> nat \<Rightarrow> nat \<Rightarrow> 'a list" where
  "swap a i j = a[i := a ! j, j := a ! i]"

text \<open>
  The loop of \<^verbatim>\<open>shuffleArray\<close> (basic variant):
  \<^verbatim>\<open>for (let i = array.length - 1; i > 0; i--) { j = Math.floor(Math.random() * (i + 1)); swap }\<close>.
  The third argument is the loop variable \<open>i\<close>; with draws in \<open>[0, 1)\<close> the index
  \<open>j\<close> is at most \<open>i\<close>, so every access is inside the array.
\<close>

fun shuffle_loop :: "rng \<Rightarrow> 'a list \<Rightarrow> nat \<Rightarrow> 'a list \<times> rng" where
  "shuffle_loop g array 0 = (array, g)"
| "shuffle_loop g array (Suc k) =
     (let i = Suc k;
          j = nat \<lfloor>g 0 * of_nat (i + 1)\<rfloor>
      in shuffle_loop (rest g) (swap array i j) (i - 1))"

text \<open>
  \<^verbatim>\<open>shuffleArray(arr)\<close>: \<^verbatim>\<open>arr.slice()\<close> is a new array with the same elements,
  which the loop then permutes. For the empty array \<^verbatim>\<open>array.length - 1\<close> is \<open>-1\<close>
  and the loop body never runs, as with the truncated subtraction here.
\<close>

definition shuffleArray :: "rng \<Rightarrow> 'a list \<Rightarrow> 'a list \<times> rng" where
  "shuffleArray g arr = (let array = slice arr 0 (length arr) in shuffle_loop g array (length array - 1))"

text \<open>
  The spec's \<^verbatim>\<open>shuffleAndTake(items, n)\<close> in the basic variant is the expression
  \<^verbatim>\<open>shuffleArray(items).slice(0, n)\<close>.
\<close>

definition shuffleAndTake :: "rng \<Rightarrow> 'a list \<Rightarrow> nat \<Rightarrow> 'a list \<times> rng" where
  "shuffleAndTake g items n = (let (array, g') = shuffleArray g items in (slice array 0 n, g'))"

text \<open>
  The enhanced variant calls \<^verbatim>\<open>tf.util.shuffle\<close> of TensorFlow.js, a library that
  is not part of the repository. A call of it is modelled by what it returns
  (\<open>None\<close> for \<^verbatim>\<open>undefined\<close>), the contents of the argument array afterwards,
  and the generator; the functions of the enhanced variant that reach it take it as
  their first argument.
\<close>

type_synonym 'a shuffle_fn = "rng \<Rightarrow> 'a list \<Rightarrow> 'a list option \<times> 'a list \<times> rng"

text \<open>
  The library's published contract: it shuffles the array it is given in place
  (Fisher-Yates: \<^verbatim>\<open>counter\<close> runs from the length down,
  \<^verbatim>\<open>index = (Math.random() * counter) | 0\<close>, then \<^verbatim>\<open>counter--\<close> and the two
  positions are swapped) and returns nothing, that is \<^verbatim>\<open>undefined\<close>.
\<close>

fun tf_shuffle_loop :: "rng \<Rightarrow> 'a list \<Rightarrow> nat \<Rightarrow> 'a list \<times> rng" where
  "tf_shuffle_loop g array 0 = (array, g)"
| "tf_shuffle_loop g array (Suc c) =
     (let index = nat \<lfloor>g 0 * of_nat (Suc c)\<rfloor>;
          counter = c
      in tf_shuffle_loop (rest g) (swap array counter index) counter)"

definition tf_util_shuffle :: "'a shuffle_fn" where
  "tf_util_shuffle g array =
     (let (array', g') = tf_shuffle_loop g array (length array) in (None, array', g'))"

text \<open>
  \<^verbatim>\<open>pickRandom(arr, n) = tf.util.shuffle(arr).slice(0, n)\<close>: the method call on the
  value of \<^verbatim>\<open>tf.util.shuffle(arr)\<close> throws a TypeError when that value is
  \<^verbatim>\<open>undefined\<close>. The second component is the caller's array after the call.
\<close>

definition pickRandom ::
    "'a shuffle_fn \<Rightarrow> rng \<Rightarrow> 'a list \<Rightarrow> nat \<Rightarrow> (js_error + 'a list) \<times> 'a list \<times> rng" where
  "pickRandom tf_shuffle g arr n =
     (case tf_shuffle g arr of
        (None, arr', g') \<Rightarrow> (Inl TypeError, arr', g')
      | (Some shuffled, arr', g') \<Rightarrow> (Inr (slice shuffled 0 n), arr', g'))"

subsection \<open>Arrays by reference\<close>

text \<open>
  JavaScript arrays are objects: a variable holds a reference, and a write through one
  reference is seen through every other. A store is the list of the array objects
  allocated so far; a reference is an index into it.
\<close>

type_synonym 'a store = "'a list list"

definition alloc :: "'a store \<Rightarrow> 'a list \<Rightarrow> 'a store \<times> nat" where
  "alloc h xs = (h @ [xs], length h)"

fun shuffle_loop_st :: "rng \<Rightarrow> 'a store \<Rightarrow> nat \<Rightarrow> nat \<Rightarrow> 'a store \<times> rng" where
  "shuffle_loop_st g h array 0 = (h, g)"
| "shuffle_loop_st g h array (Suc k) =
     (let i = Suc k;
          j = nat \<lfloor>g 0 * of_nat (i + 1)\<rfloor>
      in shuffle_loop_st (rest g) (h[array := swap (h ! array) i j]) array (i - 1))"

text \<open>\<^verbatim>\<open>shuffleArray\<close> on references: the result is the reference of the clone.\<close>

definition shuffleArray_st :: "rng \<Rightarrow> 'a store \<Rightarrow> nat \<Rightarrow> nat \<times> 'a store \<times> rng" where
  "shuffleArray_st g h arr =
     (let (h1, array) = alloc h (slice (h ! arr) 0 (length (h ! arr)));
          (h2, g') = shuffle_loop_st g h1 array (length (h1 ! array) - 1)
      in (array, h2, g'))"

fun tf_shuffle_loop_st :: "rng \<Rightarrow> 'a store \<Rightarrow> nat \<Rightarrow> nat \<Rightarrow> 'a store \<times> rng" where
  "tf_shuffle_loop_st g h array 0 = (h, g)"
| "tf_shuffle_loop_st g h array (Suc c) =
     (let index = nat \<lfloor>g 0 * of_nat (Suc c)\<rfloor>;
          counter = c
      in tf_shuffle_loop_st (rest g) (h[array := swap (h ! array) counter index]) array counter)"

definition tf_util_shuffle_st :: "rng \<Rightarrow> 'a store \<Rightarrow> nat \<Rightarrow> nat option \<times> 'a store \<times> rng" where
  "tf_util_shuffle_st g h array =
     (let (h', g') = tf_shuffle_loop_st g h array (length (h ! array)) in (None, h', g'))"

text \<open>\<^verbatim>\<open>pickRandom\<close> on references, with the library's in-place shuffle.\<close>

definition pickRandom_st :: "rng \<Rightarrow> 'a store \<Rightarrow> nat \<Rightarrow> nat \<Rightarrow> (js_error + nat) \<times> 'a store \<times> rng" where
  "pickRandom_st g h arr n =
     (case tf_util_shuffle_st g h arr of
        (None, h', g') \<Rightarrow> (Inl TypeError, h', g')
      | (Some shuffled, h', g') \<Rightarrow>
          (let (h'', r) = alloc h' (slice (h' ! shuffled) 0 n) in (Inr r, h'', g')))"


section \<open>Drug Generator\<close>

record drug =
  name :: jsstring
  "structure" :: jsstring

record bdrug = drug +
  description :: jsstring

record edrug = drug +
  molWeight :: jsstring
  logP :: jsstring
  sideEffects :: "jsstring list"

text \<open>\<^verbatim>\<open>input.split('')\<close>: one string per code unit.\<close>

definition split_units :: "jsstring \<Rightarrow> jsstring list" where
  "split_units s = map (\<lambda>c. [c]) s"

text \<open>
  \<^verbatim>\<open>simulateDrugCreation\<close> of the basic variant. \<open>r36\<close> is the string that
  \<^verbatim>\<open>Math.random().toString(36)\<close> evaluates to: \<^verbatim>\<open>0.\<close> followed by the base-36
  digits of the draw, as many as the engine needs to tell the double apart (none, and no
  point, for the draw 0).
\<close>

definition simulateDrugCreation_basic :: "jsstring \<Rightarrow> jsstring \<Rightarrow> bdrug" where
  "simulateDrugCreation_basic r36 input =
     (let name = js ''FX-'' @ toUpperCase (substr r36 2 5);
          structure = join [] (rev (split_units input)) @ js ''-mol'';
          description = js ''Fictional compound inspired by '' @ [0x22] @ input @ [0x22]
                          @ js '', for demo use only.''
      in \<lparr>name = name, structure = structure, description = description\<rparr>)"

definition side_effect_names :: "jsstring list" where
  "side_effect_names =
     [js ''Nausea'', js ''Headache'', js ''Dizziness'', js ''Fatigue'', js ''Dry mouth'',
      js ''Insomnia'']"

text \<open>
  \<^verbatim>\<open>simulateDrugCreation\<close> of the enhanced variant. The two numeric draws come from
  the generator; the array literal handed to \<^verbatim>\<open>pickRandom\<close> is a fresh object, so
  what the call does to it is dropped. An exception of \<^verbatim>\<open>pickRandom\<close> leaves the
  function before the object is built.
\<close>

definition simulateDrugCreation_enhanced ::
    "jsstring shuffle_fn \<Rightarrow> jsstring \<Rightarrow> rng \<Rightarrow> jsstring \<Rightarrow> (js_error + edrug) \<times> rng" where
  "simulateDrugCreation_enhanced tf_shuffle r36 g input =
     (let name = js ''FX-'' @ toUpperCase (slice r36 2 7);
          structure = join [] (rev (split_units input)) @ js ''-MOL'';
          molWeight = toFixed (100 + g 0 * 500) 1;
          logP = toFixed (g 1 * 6 - 1) 2
      in case pickRandom tf_shuffle (rest (rest g)) side_effect_names 3 of
           (Inl e, _, g') \<Rightarrow> (Inl e, g')
         | (Inr picked, _, g') \<Rightarrow>
             (Inr \<lparr>name = name, structure = structure, molWeight = molWeight, logP = logP,
                   sideEffects = picked\<rparr>, g'))"

section \<open>Prediction Engine\<close>

record testResult =
  efficacy :: jsstring
  toxicity :: jsstring
  predictedEffects :: "jsstring list"

definition possibleEffects :: "jsstring list" where
  "possibleEffects =
     [js ''Nausea'', js ''Headache'', js ''Dizziness'', js ''Fatigue'', js ''Dry mouth'']"

text \<open>
  \<^verbatim>\<open>simulateDrugTesting\<close> (basic variant); the field \<^verbatim>\<open>sideEffects\<close> of its
  result is \<open>predictedEffects\<close> here. The drug is not read.
\<close>

definition simulateDrugTesting :: "rng \<Rightarrow> bdrug \<Rightarrow> testResult \<times> rng" where
  "simulateDrugTesting g d =
     (let efficacy = toFixed (g 0 * 100) 1;
          toxicity = toFixed (g 1 * 100) 1;
          (shuffled, g') = shuffleArray (rest (rest g)) possibleEffects
      in (\<lparr>efficacy = efficacy, toxicity = toxicity, predictedEffects = slice shuffled 0 2\<rparr>, g'))"

text \<open>
  \<^verbatim>\<open>encodeMolecule\<close> (enhanced variant): the array \<^verbatim>\<open>codes\<close> that is wrapped into
  the 1 x 10 tensor. \<^verbatim>\<open>charCodeAt(i)\<close> is the code unit at \<open>i\<close> as a number; the
  quotient is the exact one.
\<close>

definition encodeMolecule :: "jsstring \<Rightarrow> real list" where
  "encodeMolecule str =
     (let maxLen = 10;
          codes = replicate maxLen 0
      in fold (\<lambda>i codes. codes[i := of_nat (unat (str ! i)) / 255])
              [0 ..< min (length str) maxLen] codes)"

text \<open>
  A trained TensorFlow.js model, as the function from the encoded row to the two numbers
  \<^verbatim>\<open>model.predict(inputTensor).dataSync()\<close> holds. The last layer is a sigmoid, so
  both lie in \<open>[0, 1]\<close>.
\<close>

type_synonym tfmodel = "real list \<Rightarrow> real \<times> real"

definition sigmoid_outputs :: "tfmodel \<Rightarrow> bool" where
  "sigmoid_outputs m = (\<forall>x. 0 \<le> fst (m x) \<and> fst (m x) \<le> 1 \<and> 0 \<le> snd (m x) \<and> snd (m x) \<le> 1)"


section \<open>Controllers\<close>

text \<open>
  The session state both variants keep in module-level variables and in the page. The
  markup is not among the sources; the state holds the DOM properties the handlers write.
\<close>

record 'd session =
  currentDrug :: "'d option"
  testBtn_disabled :: bool

subsection \<open>Basic variant\<close>

record bstate = "bdrug session" +
  resultOutput :: jsstring

definition empty_input_warning :: jsstring where
  "empty_input_warning = [0x26A0, 0xFE0F] @ js '' Please enter a molecule design first.''"

text \<open>
  The click handler of \<^verbatim>\<open>createBtn\<close>; \<open>v\<close> is \<^verbatim>\<open>moleculeInput.value\<close>.
  \<^verbatim>\<open>!input\<close> holds for the empty string only.
\<close>

definition createBtn_click_basic :: "jsstring \<Rightarrow> jsstring \<Rightarrow> bstate \<Rightarrow> bstate" where
  "createBtn_click_basic v r36 s =
     (let input = trim v in
      if input = [] then s\<lparr>resultOutput := empty_input_warning\<rparr>
      else
        let d = simulateDrugCreation_basic r36 input
        in s\<lparr>currentDrug := Some d,
             resultOutput :=
               [0xD83E, 0xDDEA] @ js '' Generated Drug:'' @ [0xA]
               @ js ''Name: '' @ name d @ [0xA]
               @ js ''Structure: '' @ structure d @ [0xA]
               @ js ''Description: '' @ description d,
             testBtn_disabled := False\<rparr>)"

text \<open>The click handler of \<^verbatim>\<open>testBtn\<close>, with its guard on \<^verbatim>\<open>currentDrug\<close>.\<close>

definition testBtn_click_basic :: "rng \<Rightarrow> bstate \<Rightarrow> bstate \<times> rng" where
  "testBtn_click_basic g s =
     (case currentDrug s of
        None \<Rightarrow> (s, g)
      | Some d \<Rightarrow>
          (let out1 = resultOutput s @ [0xA, 0xA, 0xD83D, 0xDD0D] @ js '' Testing drug''
                        @ [0x2026, 0xA];
               (testResults, g') = simulateDrugTesting g d;
               out2 = out1
                        @ js ''Predicted Efficacy: '' @ efficacy testResults @ js ''%'' @ [0xA]
                        @ js ''Predicted Toxicity: '' @ toxicity testResults @ js ''%'' @ [0xA]
                        @ js ''Predicted Side Effects: ''
                        @ join (js '', '') (predictedEffects testResults)
           in (s\<lparr>resultOutput := out2\<rparr>, g')))"

subsection \<open>Enhanced variant\<close>

text \<open>
  \<open>model\<close> is the module variable of that name; \<open>trainings\<close> counts the calls of
  \<^verbatim>\<open>buildAndTrainModel\<close> (it is not a variable of the script). \<open>visibleStep\<close> is the
  wizard step \<^verbatim>\<open>showStep\<close> last revealed, \<open>alerts\<close> the messages shown with
  \<^verbatim>\<open>alert\<close>, \<open>barChart\<close> and \<open>radarChart\<close> the data of the current charts.
\<close>

record estate = "edrug session" +
  model :: "tfmodel option"
  trainings :: nat
  visibleStep :: nat
  alerts :: "jsstring list"
  propertiesList :: "jsstring list"
  spinner_hidden :: bool
  barCanvas_hidden :: bool
  radarCanvas_hidden :: bool
  barChart :: "(jsstring \<times> jsstring) option"
  radarChart :: "(jsstring list \<times> real list) option"

text \<open>
  \<^verbatim>\<open>showStep\<close> hides every step but the one at \<open>index\<close>; the width it gives the
  progress bar is a function of \<open>index\<close> alone and is left out.
\<close>

definition showStep :: "nat \<Rightarrow> estate \<Rightarrow> estate" where
  "showStep index s = s\<lparr>visibleStep := index\<rparr>"

definition displayProperties :: "edrug \<Rightarrow> estate \<Rightarrow> estate" where
  "displayProperties d s =
     s\<lparr>propertiesList :=
         [js ''Name: '' @ name d,
          js ''Structure: '' @ structure d,
          js ''Molecular Weight (g/mol): '' @ molWeight d,
          js ''LogP (lipophilicity): '' @ logP d,
          js ''Possible Side Effects: '' @ join (js '', '') (sideEffects d)]\<rparr>"

text \<open>
  A handler of the enhanced variant returns the exception that ended it, if any, with the
  state as the statements before the throw left it.
\<close>

definition createBtn_click_enhanced ::
    "jsstring shuffle_fn \<Rightarrow> jsstring \<Rightarrow> jsstring \<Rightarrow> rng \<Rightarrow> estate
       \<Rightarrow> js_error option \<times> estate \<times> rng" where
  "createBtn_click_enhanced tf_shuffle v r36 g s =
     (let input = trim v in
      if input = [] then (None, s\<lparr>alerts := alerts s @ [js ''Please enter a molecule design.'']\<rparr>, g)
      else
        case simulateDrugCreation_enhanced tf_shuffle r36 g input of
          (Inl e, g') \<Rightarrow> (Some e, s, g')
        | (Inr d, g') \<Rightarrow>
            (let s1 = s\<lparr>currentDrug := Some d\<rparr>;
                 s2 = displayProperties d s1
             in (None, showStep 1 s2, g')))"

definition nextToTestBtn_click :: "estate \<Rightarrow> estate" where
  "nextToTestBtn_click s = showStep 2 s"

definition renderBarChart :: "real \<Rightarrow> real \<Rightarrow> estate \<Rightarrow> estate" where
  "renderBarChart eff tox s =
     s\<lparr>barCanvas_hidden := False, barChart := Some (toFixed eff 1, toFixed tox 1)\<rparr>"

definition renderRadarChart :: "rng \<Rightarrow> jsstring list \<Rightarrow> estate \<Rightarrow> estate \<times> rng" where
  "renderRadarChart g effects s =
     (let scores = map (\<lambda>k. g k * 100) [0 ..< length effects]
      in (s\<lparr>radarCanvas_hidden := False, radarChart := Some (effects, scores)\<rparr>,
          (\<lambda>k. g (k + length effects))))"

text \<open>
  The click handler of \<^verbatim>\<open>testBtn\<close>. \<open>trained\<close> is the model
  \<^verbatim>\<open>buildAndTrainModel()\<close> resolves to if it is called now (it depends on the
  library's random training data; a failure inside the library is not modelled). The
  handler runs to its end before the next event is taken. There is no guard on \<^verbatim>\<open>currentDrug\<close>: reading \<^verbatim>\<open>currentDrug.structure\<close>
  of \<^verbatim>\<open>null\<close> throws.
\<close>

definition testBtn_click_enhanced ::
    "tfmodel \<Rightarrow> rng \<Rightarrow> estate \<Rightarrow> js_error option \<times> estate \<times> rng" where
  "testBtn_click_enhanced trained g s =
     (let s1 = s\<lparr>spinner_hidden := False, testBtn_disabled := True\<rparr>;
          s2 = (case model s1 of
                  None \<Rightarrow> s1\<lparr>model := Some trained, trainings := Suc (trainings s1)\<rparr>
                | Some m \<Rightarrow> s1)
      in case currentDrug s2 of
           None \<Rightarrow> (Some TypeError, s2, g)
         | Some d \<Rightarrow>
             (let inputTensor = encodeMolecule (structure d)
              in case model s2 of
                   None \<Rightarrow> (Some TypeError, s2, g)
                 | Some m \<Rightarrow>
                     (let (eff, tox) = m inputTensor;
                          s3 = s2\<lparr>spinner_hidden := True\<rparr>;
                          s4 = renderBarChart (eff * 100) (tox * 100) s3;
                          (s5, g') = renderRadarChart g (sideEffects d) s4
                      in (None, s5, g'))))"

text \<open>
  A session of the enhanced variant: the clicks in the order they are handled, each with
  the data its handler reads. An exception ends the handler, not the session.
\<close>

datatype event =
    CreateClick jsstring jsstring
  | NextClick
  | TestClick tfmodel

fun handle :: "jsstring shuffle_fn \<Rightarrow> event \<Rightarrow> rng \<Rightarrow> estate \<Rightarrow> estate \<times> rng" where
  "handle tf_shuffle (CreateClick v r36) g s = snd (createBtn_click_enhanced tf_shuffle v r36 g s)"
| "handle tf_shuffle NextClick g s = (nextToTestBtn_click s, g)"
| "handle tf_shuffle (TestClick trained) g s = snd (testBtn_click_enhanced trained g s)"

fun run :: "jsstring shuffle_fn \<Rightarrow> event list \<Rightarrow> rng \<Rightarrow> estate \<Rightarrow> estate \<times> rng" where
  "run tf_shuffle [] g s = (s, g)"
| "run tf_shuffle (e # es) g s = (let (s', g') = handle tf_shuffle e g s in run tf_shuffle es g' s')"

text \<open>The state of a freshly loaded page of the enhanced variant.\<close>

definition loaded :: estate where
  "loaded = \<lparr>currentDrug = None, testBtn_disabled = False, model = None, trainings = 0,
             visibleStep = 0, alerts = [], propertiesList = [], spinner_hidden = True,
             barCanvas_hidden = True, radarCanvas_hidden = True, barChart = None,
             radarChart = None\<rparr>"


section \<open>Notions the properties are stated with\<close>

text \<open>A generator that returns the same number at every call.\<close>

definition const_draws :: "real \<Rightarrow> rng" where
  "const_draws r = (\<lambda>k. r)"

text \<open>
  The decimal numeral with one place after the point for \<open>n\<close> tenths, and the strings
  that are such a numeral for a value from 0.0 to 100.0.
\<close>

definition tenths :: "nat \<Rightarrow> jsstring" where
  "tenths n = dec (n div 10) @ js ''.'' @ [digit (n mod 10)]"

definition percent_1dp :: "jsstring \<Rightarrow> bool" where
  "percent_1dp s = (s \<in> set (map tenths [0 ..< 1001]))"

text \<open>The model a session holds, if it holds one, has sigmoid outputs.\<close>

definition model_ok :: "estate \<Rightarrow> bool" where
  "model_ok s = (case model s of None \<Rightarrow> True | Some m \<Rightarrow> sigmoid_outputs m)"

text \<open>The model the first test click of a session would train.\<close>

fun first_trained :: "event list \<Rightarrow> tfmodel option" where
  "first_trained [] = None"
| "first_trained (TestClick trained # es) = Some trained"
| "first_trained (e # es) = first_trained es"

text \<open>
  The characters of a base-36 numeral (\<^verbatim>\<open>0\<close>-\<^verbatim>\<open>9\<close>, \<^verbatim>\<open>a\<close>-\<^verbatim>\<open>z\<close>) and of
  the token in a drug name (\<^verbatim>\<open>0\<close>-\<^verbatim>\<open>9\<close>, \<^verbatim>\<open>A\<close>-\<^verbatim>\<open>Z\<close>).
\<close>

definition is_radix36 :: "16 word \<Rightarrow> bool" where
  "is_radix36 c = ((0x30 \<le> c \<and> c \<le> 0x39) \<or> (0x61 \<le> c \<and> c \<le> 0x7A))"

definition is_upper_alnum :: "16 word \<Rightarrow> bool" where
  "is_upper_alnum c = ((0x30 \<le> c \<and> c \<le> 0x39) \<or> (0x41 \<le> c \<and> c \<le> 0x5A))"

text \<open>A model whose prediction does not depend on its input.\<close>

definition const_model :: "real \<Rightarrow> real \<Rightarrow> tfmodel" where
  "const_model e t = (\<lambda>x. (e, t))"

text \<open>Sample drugs of the two variants.\<close>

definition sample_bdrug :: bdrug where
  "sample_bdrug = simulateDrugCreation_basic (js ''0.4fzyo82mvyr'') (js ''caffeine'')"

definition sample_edrug :: edrug where
  "sample_edrug = \<lparr>name = js ''FX-4FZYO'', structure = js ''enieffac-MOL'',
                    molWeight = js ''350.0'', logP = js ''2.00'',
                    sideEffects = [js ''Fatigue'', js ''Nausea'', js ''Insomnia'']\<rparr>"

text \<open>
  A shuffle that hands its array back, for a call of the library that does return an
  array.
\<close>

definition returns_argument :: "'a shuffle_fn" where
  "returns_argument g array = (Some array, array, g)"

section \<open>Strings and numbers\<close>

lemma all_dropWhile: "(\<forall>x\<in>set (dropWhile P xs). P x) \<longleftrightarrow> (\<forall>x\<in>set xs. P x)"
  by (induction xs) auto

lemma trim_blank_iff: "trim v = [] \<longleftrightarrow> (\<forall>c\<in>set v. is_ws c)"
  by (simp add: trim_def all_dropWhile)

lemma join_empty_concat: "join [] xs = concat xs"
  by (induction "[] :: jsstring" xs rule: join.induct) simp_all

lemma reverse_units: "join [] (rev (split_units s)) = rev s"
  by (induction s) (simp_all add: join_empty_concat split_units_def)

lemma dec_small: "n < 10 \<Longrightarrow> dec n = [digit n]"
  by (simp add: dec.simps)

lemma dec_large: "10 \<le> n \<Longrightarrow> dec n = dec (n div 10) @ [digit (n mod 10)]"
  by (subst dec.simps) simp

lemma dec_nonempty: "dec n \<noteq> []"
  by (subst dec.simps) simp

lemma toFixed_1:
  assumes "0 \<le> x"
  shows "toFixed x 1 = tenths (nat \<lfloor>x * 10 + 1 / 2\<rfloor>)"
proof (cases "nat \<lfloor>x * 10 + 1 / 2\<rfloor> < 10")
  case True
  then show ?thesis using assms
    by (simp add: toFixed_def tenths_def dec_small Let_def)
next
  case False
  define n where "n = nat \<lfloor>x * 10 + 1 / 2\<rfloor>"
  have n: "10 \<le> n" using False by (simp add: n_def)
  have d: "dec n = dec (n div 10) @ [digit (n mod 10)]" using n by (rule dec_large)
  have l: "length (dec (n div 10)) \<noteq> 0" using dec_nonempty by simp
  have "toFixed x 1 = take (length (dec n) - 1) (dec n) @ js ''.'' @ drop (length (dec n) - 1) (dec n)"
    using assms l d by (simp add: toFixed_def Let_def n_def [symmetric])
  also have "\<dots> = tenths n" by (simp add: d tenths_def)
  finally show ?thesis by (simp add: n_def)
qed

lemma round_tenths_le:
  assumes "0 \<le> (x::real)" "x \<le> 100"
  shows "nat \<lfloor>x * 10 + 1 / 2\<rfloor> \<le> 1000"
proof -
  have "x * 10 + 1 / 2 < 1001" using assms by simp
  then have "\<lfloor>x * 10 + 1 / 2\<rfloor> < 1001" by (simp add: floor_less_iff)
  then show ?thesis by linarith
qed

lemma percent_1dp_toFixed:
  assumes "0 \<le> x" "x \<le> 100"
  shows "percent_1dp (toFixed x 1)"
proof -
  have "nat \<lfloor>x * 10 + 1 / 2\<rfloor> \<in> set [0 ..< 1001]"
    using round_tenths_le [OF assms] by simp
  then show ?thesis
    unfolding percent_1dp_def toFixed_1 [OF assms(1)] set_map by (rule imageI)
qed

section \<open>The shuffle of the basic variant\<close>

lemma unit_draws_rest: "unit_draws g \<Longrightarrow> unit_draws (rest g)"
  by (simp add: unit_draws_def rest_def)

lemma unit_draws_const: "0 \<le> r \<Longrightarrow> r < 1 \<Longrightarrow> unit_draws (const_draws r)"
  by (simp add: unit_draws_def const_draws_def)

lemma draw_index:
  assumes "0 \<le> r" "r < 1"
  shows "nat \<lfloor>r * of_nat (Suc i)\<rfloor> \<le> i"
proof -
  have "r * of_nat (Suc i) < of_nat (Suc i)"
    using assms by (simp add: mult_less_cancel_right1 del: of_nat_Suc)
  then have "\<lfloor>r * of_nat (Suc i)\<rfloor> < int (Suc i)"
    by (simp add: floor_less_iff del: of_nat_Suc)
  then show ?thesis by linarith
qed

lemma mset_swap_in: "i < length a \<Longrightarrow> j < length a \<Longrightarrow> mset (swap a i j) = mset a"
  unfolding swap_def by (simp add: mset_swap)

lemma length_swap: "length (swap a i j) = length a"
  by (simp add: swap_def)

lemma shuffle_loop_perm:
  "unit_draws g \<Longrightarrow> k < length a \<Longrightarrow> mset (fst (shuffle_loop g a k)) = mset a"
proof (induction k arbitrary: g a)
  case 0
  then show ?case by simp
next
  case (Suc k)
  from Suc.prems have k: "Suc k < length a" by simp
  have "0 \<le> g 0" "g 0 < 1" using Suc.prems(1) by (simp_all add: unit_draws_def)
  then have j: "nat \<lfloor>g 0 * of_nat (Suc (Suc k))\<rfloor> \<le> Suc k" by (rule draw_index)
  have "mset (swap a (Suc k) (nat \<lfloor>g 0 * of_nat (Suc (Suc k))\<rfloor>)) = mset a"
    using k j by (intro mset_swap_in) auto
  moreover have "mset (fst (shuffle_loop (rest g) (swap a (Suc k) (nat \<lfloor>g 0 * of_nat (Suc (Suc k))\<rfloor>)) k))
      = mset (swap a (Suc k) (nat \<lfloor>g 0 * of_nat (Suc (Suc k))\<rfloor>))"
    using k Suc.prems(1) by (intro Suc.IH unit_draws_rest) (auto simp: length_swap)
  ultimately show ?case by (simp add: Let_def del: of_nat_Suc)
qed

lemma shuffleArray_perm: "unit_draws g \<Longrightarrow> mset (fst (shuffleArray g arr)) = mset arr"
  by (cases arr) (simp_all add: shuffleArray_def slice_def shuffle_loop_perm)


lemma shuffleAndTake_take:
  "fst (shuffleAndTake g items n) = take n (fst (shuffleArray g items))"
  by (simp add: shuffleAndTake_def slice_def split: prod.splits)

text \<open>
  C3. Amended: in the basic variant, for every list \<open>items\<close>, every \<open>n\<close> and draws in
  \<open>[0, 1)\<close>, \<^verbatim>\<open>shuffleArray(items).slice(0, n)\<close> returns exactly
  \<open>min n (length items)\<close> elements, the first ones of a permutation of \<open>items\<close>: each
  is a member of \<open>items\<close>, none is taken more often than \<open>items\<close> holds it, and they
  are pairwise distinct when the elements of \<open>items\<close> are. Nothing fails for \<open>n\<close>
  beyond the length: the whole permutation is returned.
\<close>

theorem shuffleAndTake_prefix_of_permutation:
  assumes "unit_draws g"
  shows "length (fst (shuffleAndTake g items n)) = min n (length items)
       \<and> mset (fst (shuffleAndTake g items n)) \<subseteq># mset items
       \<and> set (fst (shuffleAndTake g items n)) \<subseteq> set items
       \<and> (distinct items \<longrightarrow> distinct (fst (shuffleAndTake g items n)))
       \<and> (length items \<le> n \<longrightarrow> mset (fst (shuffleAndTake g items n)) = mset items)"
proof -
  define a where "a = fst (shuffleArray g items)"
  have m: "mset a = mset items" using shuffleArray_perm [OF assms] by (simp add: a_def)
  then have l: "length a = length items" by (rule mset_eq_length)
  have s: "set a = set items" using m by (rule mset_eq_setD)
  have d: "distinct a = distinct items" using m by (rule mset_eq_imp_distinct_iff)
  have r: "fst (shuffleAndTake g items n) = take n a"
    by (simp add: shuffleAndTake_take a_def)
  have sub: "mset (take n a) \<subseteq># mset a"
    by (metis append_take_drop_id mset_append mset_subset_eq_add_left)
  have "set (take n a) \<subseteq> set a" by (rule set_take_subset)
  then show ?thesis
    using l s d m sub by (simp add: r min.commute)
qed

text \<open>Two draws of side effects out of five numbered items, and three asked of two.\<close>

theorem shuffleAndTake_prefix_of_permutation_witness:
  "unit_draws (const_draws (1 / 2))
   \<and> fst (shuffleAndTake (const_draws (1 / 2)) [1, 2, 3, 4, 5 :: nat] 2) = [1, 4]
   \<and> length (fst (shuffleAndTake (const_draws (1 / 2)) [1, 2, 3, 4, 5 :: nat] 2)) = 2
   \<and> distinct [1, 2, 3, 4, 5 :: nat]
   \<and> distinct (fst (shuffleAndTake (const_draws (1 / 2)) [1, 2, 3, 4, 5 :: nat] 2))
   \<and> length [1, 2 :: nat] \<le> 3
   \<and> mset (fst (shuffleAndTake (const_draws (1 / 2)) [1, 2 :: nat] 3)) = mset [1, 2 :: nat]"
proof -
  have h: "unit_draws (const_draws (1 / 2))" by (simp add: unit_draws_const)
  have e: "fst (shuffleAndTake (const_draws (1 / 2)) [1, 2, 3, 4, 5 :: nat] 2) = [1, 4]"
    by (simp add: shuffleAndTake_take shuffleArray_def slice_def const_draws_def swap_def
          rest_def numeral_eq_Suc)
  show ?thesis
    using shuffleAndTake_prefix_of_permutation [OF h, of "[1, 2, 3, 4, 5 :: nat]" 2]
      shuffleAndTake_prefix_of_permutation [OF h, of "[1, 2 :: nat]" 3] h e
    by simp
qed

text \<open>
  Asked for three of two, the call returns the two; asked for two of a list that holds
  the same element twice, it returns that element twice.
\<close>

theorem shuffleAndTake_beyond_length_counterexample:
  "fst (shuffleAndTake (const_draws 0) [1 :: nat, 2] 3) = [2, 1]
   \<and> fst (shuffleAndTake (const_draws 0) [7 :: nat, 7] 2) = [7, 7]"
  by (simp add: shuffleAndTake_take shuffleArray_def slice_def const_draws_def numeral_2_eq_2
        swap_def rest_def)

section \<open>Shuffling and the caller's array\<close>

lemma shuffle_loop_st_eq:
  "array < length h \<Longrightarrow>
   shuffle_loop_st g h array k =
     (h[array := fst (shuffle_loop g (h ! array) k)], snd (shuffle_loop g (h ! array) k))"
  by (induction k arbitrary: g h) (simp_all add: Let_def del: of_nat_Suc)

lemma tf_shuffle_loop_st_eq:
  "array < length h \<Longrightarrow>
   tf_shuffle_loop_st g h array k =
     (h[array := fst (tf_shuffle_loop g (h ! array) k)], snd (tf_shuffle_loop g (h ! array) k))"
  by (induction k arbitrary: g h) (simp_all add: Let_def del: of_nat_Suc)

text \<open>
  On references, \<^verbatim>\<open>shuffleArray\<close> appends one array to the store, the shuffled clone,
  and returns its reference; it agrees with \<open>shuffleArray\<close> on values.
\<close>

lemma shuffleArray_st_eq:
  "shuffleArray_st g h arr
     = (length h, h @ [fst (shuffleArray g (h ! arr))], snd (shuffleArray g (h ! arr)))"
  by (simp add: shuffleArray_st_def alloc_def shuffle_loop_st_eq shuffleArray_def Let_def
        slice_def)

text \<open>Basic variant: every array that existed before the call is unchanged after it.\<close>

lemma shuffleArray_st_frame:
  assumes "a < length h"
  shows "fst (snd (shuffleArray_st g h arr)) ! a = h ! a"
  using assms by (simp add: shuffleArray_st_eq nth_append)

text \<open>
  C4. The claim holds in the basic variant (\<open>shuffleArray_st_frame\<close>) and fails in the
  enhanced one: \<^verbatim>\<open>pickRandom\<close> hands the caller's array itself to the library's
  in-place shuffle. With the array literal of \<^verbatim>\<open>simulateDrugCreation\<close> as the only
  object of the store and every draw 0, the call ends in a TypeError and the caller's
  array is left rotated by one place.
\<close>

theorem pickRandom_permutes_callers_array:
  "pickRandom_st (const_draws 0) [side_effect_names] 0 3
     = (Inl TypeError,
        [[js ''Headache'', js ''Dizziness'', js ''Fatigue'', js ''Dry mouth'', js ''Insomnia'',
          js ''Nausea'']],
        const_draws 0)"
  by (simp add: pickRandom_st_def tf_util_shuffle_st_def tf_shuffle_loop_st_eq
        side_effect_names_def const_draws_def rest_def swap_def numeral_eq_Suc)

section \<open>Predicted percentages\<close>

lemma testing_basic_percent:
  assumes "unit_draws g"
  shows "percent_1dp (efficacy (fst (simulateDrugTesting g d)))"
    and "percent_1dp (toxicity (fst (simulateDrugTesting g d)))"
proof -
  have e: "0 \<le> g 0 * 100" "g 0 * 100 \<le> 100" and t: "0 \<le> g 1 * 100" "g 1 * 100 \<le> 100"
    using assms by (simp_all add: unit_draws_def less_imp_le)
  show "percent_1dp (efficacy (fst (simulateDrugTesting g d)))"
    using percent_1dp_toFixed [OF e]
    by (simp add: simulateDrugTesting_def Let_def split: prod.splits)
  show "percent_1dp (toxicity (fst (simulateDrugTesting g d)))"
    using percent_1dp_toFixed [OF t]
    by (simp add: simulateDrugTesting_def Let_def split: prod.splits)
qed

lemma testing_enhanced_percent:
  assumes "sigmoid_outputs trained" "model_ok s" "currentDrug s = Some d"
  shows "\<exists>e t. barChart (fst (snd (testBtn_click_enhanced trained g s))) = Some (e, t)
           \<and> percent_1dp e \<and> percent_1dp t"
proof -
  define m where "m = (case model s of None \<Rightarrow> trained | Some m' \<Rightarrow> m')"
  have ok: "sigmoid_outputs m"
    using assms(1,2) by (simp add: m_def model_ok_def split: option.splits)
  obtain eff tox where p: "m (encodeMolecule (structure d)) = (eff, tox)"
    by (cases "m (encodeMolecule (structure d))")
  have r: "0 \<le> eff * 100" "eff * 100 \<le> 100" "0 \<le> tox * 100" "tox * 100 \<le> 100"
    using ok p unfolding sigmoid_outputs_def
    by (metis fst_conv snd_conv mult_nonneg_nonneg zero_le_numeral mult_le_cancel_right1
          mult.commute mult_left_le_one_le order_refl)+
  have "barChart (fst (snd (testBtn_click_enhanced trained g s)))
          = Some (toFixed (eff * 100) 1, toFixed (tox * 100) 1)"
    using assms(3) p
    by (simp add: testBtn_click_enhanced_def m_def renderBarChart_def renderRadarChart_def Let_def
          split: option.splits prod.splits)
  then show ?thesis
    using percent_1dp_toFixed [OF r(1,2)] percent_1dp_toFixed [OF r(3,4)] by simp
qed

text \<open>
  C8. A test action yields efficacy and toxicity as decimal numerals with one place after
  the point and a value from 0.0 to 100.0, in both variants. Basic variant: for every
  drug and every run of \<^verbatim>\<open>Math.random\<close> with draws in \<open>[0, 1)\<close>, the two fields of
  the result of \<^verbatim>\<open>simulateDrugTesting\<close>. Enhanced variant: for every session state
  that holds a drug, with models whose two outputs lie in \<open>[0, 1]\<close>, the two values the
  handler hands to the bar chart.
\<close>

theorem test_percentages_one_decimal:
  assumes "unit_draws g" and "sigmoid_outputs trained" and "model_ok s"
    and "currentDrug s = Some d"
  shows "percent_1dp (efficacy (fst (simulateDrugTesting g b)))
       \<and> percent_1dp (toxicity (fst (simulateDrugTesting g b)))
       \<and> (\<exists>e t. barChart (fst (snd (testBtn_click_enhanced trained g s))) = Some (e, t)
                  \<and> percent_1dp e \<and> percent_1dp t)"
  using testing_basic_percent [OF assms(1)] testing_enhanced_percent [OF assms(2,3,4)]
  by simp

theorem test_percentages_one_decimal_witness:
  "unit_draws (const_draws (1 / 2)) \<and> sigmoid_outputs (const_model (1 / 2) 1)
   \<and> model_ok (loaded\<lparr>currentDrug := Some sample_edrug\<rparr>)
   \<and> currentDrug (loaded\<lparr>currentDrug := Some sample_edrug\<rparr>) = Some sample_edrug
   \<and> percent_1dp (efficacy (fst (simulateDrugTesting (const_draws (1 / 2)) sample_bdrug)))
   \<and> percent_1dp (toxicity (fst (simulateDrugTesting (const_draws (1 / 2)) sample_bdrug)))
   \<and> (\<exists>e t. barChart (fst (snd (testBtn_click_enhanced (const_model (1 / 2) 1)
                 (const_draws (1 / 2)) (loaded\<lparr>currentDrug := Some sample_edrug\<rparr>)))) = Some (e, t)
              \<and> percent_1dp e \<and> percent_1dp t)
   \<and> efficacy (fst (simulateDrugTesting (const_draws (1 / 2)) sample_bdrug)) = js ''50.0''
   \<and> barChart (fst (snd (testBtn_click_enhanced (const_model (1 / 2) 1)
                 (const_draws (1 / 2)) (loaded\<lparr>currentDrug := Some sample_edrug\<rparr>))))
       = Some (js ''50.0'', js ''100.0'')"
proof -
  have h1: "unit_draws (const_draws (1 / 2))" by (simp add: unit_draws_const)
  have h2: "sigmoid_outputs (const_model (1 / 2) 1)"
    by (simp add: sigmoid_outputs_def const_model_def)
  have h3: "model_ok (loaded\<lparr>currentDrug := Some sample_edrug\<rparr>)"
    by (simp add: model_ok_def loaded_def)
  have h4: "currentDrug (loaded\<lparr>currentDrug := Some sample_edrug\<rparr>) = Some sample_edrug"
    by simp
  have t50: "toFixed (1 / 2 * 100) 1 = js ''50.0''"
    by (subst toFixed_1) (simp_all add: tenths_def dec_small dec_large digit_def js_def)
  have t100: "toFixed (1 * 100) 1 = js ''100.0''"
    by (subst toFixed_1) (simp_all add: tenths_def dec_small dec_large digit_def js_def)
  have e1: "efficacy (fst (simulateDrugTesting (const_draws (1 / 2)) sample_bdrug)) = js ''50.0''"
    using t50 by (simp add: simulateDrugTesting_def const_draws_def Let_def split: prod.splits)
  have e2: "barChart (fst (snd (testBtn_click_enhanced (const_model (1 / 2) 1)
                 (const_draws (1 / 2)) (loaded\<lparr>currentDrug := Some sample_edrug\<rparr>))))
       = Some (js ''50.0'', js ''100.0'')"
    using t50 t100
    by (simp add: testBtn_click_enhanced_def loaded_def const_model_def renderBarChart_def
          renderRadarChart_def Let_def split: prod.splits)
  show ?thesis
    using test_percentages_one_decimal [OF h1 h2 h3 h4, where b = sample_bdrug]
      h1 h2 h3 h4 e1 e2 by simp
qed


section \<open>The model handle of the enhanced variant\<close>

lemma create_keeps_model:
  "model (fst (snd (createBtn_click_enhanced lib v r36 g s))) = model s
   \<and> trainings (fst (snd (createBtn_click_enhanced lib v r36 g s))) = trainings s"
  by (simp add: createBtn_click_enhanced_def displayProperties_def showStep_def Let_def
        split: prod.splits sum.splits)

lemma next_keeps_model:
  "model (nextToTestBtn_click s) = model s \<and> trainings (nextToTestBtn_click s) = trainings s"
  by (simp add: nextToTestBtn_click_def showStep_def)

lemma test_model:
  "model (fst (snd (testBtn_click_enhanced trained g s)))
     = (case model s of None \<Rightarrow> Some trained | Some m \<Rightarrow> Some m)
   \<and> trainings (fst (snd (testBtn_click_enhanced trained g s)))
     = (case model s of None \<Rightarrow> Suc (trainings s) | Some m \<Rightarrow> trainings s)"
  by (simp add: testBtn_click_enhanced_def renderBarChart_def renderRadarChart_def Let_def
        split: option.splits prod.splits)

text \<open>Once a model is there, no handler replaces it or trains again.\<close>

lemma handle_ready:
  "model s = Some m \<Longrightarrow>
   model (fst (handle lib e g s)) = Some m \<and> trainings (fst (handle lib e g s)) = trainings s"
  by (cases e) (simp_all add: create_keeps_model next_keeps_model test_model)

lemma run_ready:
  "model s = Some m \<Longrightarrow>
   model (fst (run lib es g s)) = Some m \<and> trainings (fst (run lib es g s)) = trainings s"
proof (induction es arbitrary: g s)
  case Nil
  then show ?case by simp
next
  case (Cons e es)
  obtain s' g' where h: "handle lib e g s = (s', g')" by (cases "handle lib e g s")
  have "model s' = Some m" "trainings s' = trainings s"
    using handle_ready [OF Cons.prems, of lib e g] h by simp_all
  then show ?case using Cons.IH [of s' g'] h by simp
qed

lemma run_unloaded:
  "model s = None \<Longrightarrow>
   model (fst (run lib es g s)) = first_trained es
   \<and> trainings (fst (run lib es g s))
       = trainings s + (case first_trained es of None \<Rightarrow> 0 | Some m \<Rightarrow> 1)"
proof (induction es arbitrary: g s)
  case Nil
  then show ?case by simp
next
  case (Cons e es)
  obtain s' g' where h: "handle lib e g s = (s', g')" by (cases "handle lib e g s")
  show ?case
  proof (cases e)
    case (CreateClick v r36)
    then have "model s' = None" "trainings s' = trainings s"
      using h Cons.prems create_keeps_model [of lib v r36 g s] by simp_all
    then show ?thesis using Cons.IH [of s' g'] h CreateClick by simp
  next
    case NextClick
    then have "model s' = None" "trainings s' = trainings s"
      using h Cons.prems next_keeps_model [of s] by auto
    then show ?thesis using Cons.IH [of s' g'] h NextClick by simp
  next
    case (TestClick trained)
    then have "model s' = Some trained" "trainings s' = Suc (trainings s)"
      using h Cons.prems test_model [of trained g s] by simp_all
    then show ?thesis using run_ready [of s' trained lib es g'] h TestClick by simp
  qed
qed

text \<open>
  C6. In every session of the enhanced variant, whatever the clicks and their order, the
  model handle is empty until the first test click, holds the model that click trained
  from then on, and \<^verbatim>\<open>buildAndTrainModel\<close> has been called once if there was a test
  click and never otherwise. Each handler runs to its end before the next click is
  handled.
\<close>

theorem model_trained_once_per_session:
  "model (fst (run lib es g loaded)) = first_trained es
   \<and> trainings (fst (run lib es g loaded))
       = (case first_trained es of None \<Rightarrow> 0 | Some m \<Rightarrow> 1)"
  using run_unloaded [of loaded lib es g] by (simp add: loaded_def)

text \<open>A session with two test clicks, a create click and a next click between them.\<close>

theorem model_trained_once_per_session_witness:
  "model (fst (run tf_util_shuffle
           [TestClick (const_model (1 / 2) 1), CreateClick (js ''caffeine'') (js ''0.i''),
            NextClick, TestClick (const_model 0 0)]
           (const_draws (1 / 2)) loaded)) = Some (const_model (1 / 2) 1)
   \<and> trainings (fst (run tf_util_shuffle
           [TestClick (const_model (1 / 2) 1), CreateClick (js ''caffeine'') (js ''0.i''),
            NextClick, TestClick (const_model 0 0)]
           (const_draws (1 / 2)) loaded)) = 1"
  using model_trained_once_per_session [of tf_util_shuffle
           "[TestClick (const_model (1 / 2) 1), CreateClick (js ''caffeine'') (js ''0.i''),
             NextClick, TestClick (const_model 0 0)]" "const_draws (1 / 2)"]
  by simp

section \<open>Guards of the controllers\<close>

text \<open>
  C9. When the text field holds nothing but white space (or nothing), the create click
  constructs no drug and changes nothing but the warning it shows: in the basic variant
  the output panel holds the warning, in the enhanced variant one more alert has been
  shown; the current drug, the model and the state of the test button are what they were,
  and no random number has been drawn.
\<close>

theorem blank_input_rejected:
  assumes "\<forall>c\<in>set v. is_ws c"
  shows "createBtn_click_basic v r36 s = s\<lparr>resultOutput := empty_input_warning\<rparr>
       \<and> currentDrug (createBtn_click_basic v r36 s) = currentDrug s
       \<and> testBtn_disabled (createBtn_click_basic v r36 s) = testBtn_disabled s
       \<and> createBtn_click_enhanced lib v r36 g e
           = (None, e\<lparr>alerts := alerts e @ [js ''Please enter a molecule design.'']\<rparr>, g)
       \<and> currentDrug (fst (snd (createBtn_click_enhanced lib v r36 g e))) = currentDrug e
       \<and> model (fst (snd (createBtn_click_enhanced lib v r36 g e))) = model e"
proof -
  have "trim v = []" using assms by (simp add: trim_blank_iff)
  then show ?thesis
    by (simp add: createBtn_click_basic_def createBtn_click_enhanced_def)
qed

text \<open>A space, a tab and a no-break space, with a drug already in the session.\<close>

theorem blank_input_rejected_witness:
  "is_ws 0x20 \<and> is_ws 0x9 \<and> is_ws 0xA0
   \<and> currentDrug (createBtn_click_basic [0x20, 0x9, 0xA0] (js ''0.i'')
        \<lparr>currentDrug = Some sample_bdrug, testBtn_disabled = False, resultOutput = []\<rparr>)
      = Some sample_bdrug
   \<and> resultOutput (createBtn_click_basic [0x20, 0x9, 0xA0] (js ''0.i'')
        \<lparr>currentDrug = Some sample_bdrug, testBtn_disabled = False, resultOutput = []\<rparr>)
      = empty_input_warning
   \<and> currentDrug (fst (snd (createBtn_click_enhanced tf_util_shuffle [0x20, 0x9, 0xA0]
        (js ''0.i'') (const_draws 0) (loaded\<lparr>currentDrug := Some sample_edrug\<rparr>))))
      = Some sample_edrug
   \<and> alerts (fst (snd (createBtn_click_enhanced tf_util_shuffle [0x20, 0x9, 0xA0]
        (js ''0.i'') (const_draws 0) (loaded\<lparr>currentDrug := Some sample_edrug\<rparr>))))
      = [js ''Please enter a molecule design.'']"
proof -
  have h: "\<forall>c\<in>set [0x20, 0x9, 0xA0]. is_ws c" by (simp add: is_ws_def)
  show ?thesis
    using h
      blank_input_rejected [OF h, of "js ''0.i''"
        "\<lparr>currentDrug = Some sample_bdrug, testBtn_disabled = False, resultOutput = []\<rparr>"
        tf_util_shuffle "const_draws 0" "loaded\<lparr>currentDrug := Some sample_edrug\<rparr>"]
    by (simp add: loaded_def)
qed

text \<open>The guard of the basic variant: without a drug the test click does nothing.\<close>

lemma test_guard_basic: "currentDrug s = None \<Longrightarrow> testBtn_click_basic g s = (s, g)"
  by (simp add: testBtn_click_basic_def)

text \<open>
  C2. The claim holds in the basic variant (\<open>test_guard_basic\<close>). The handler of the
  enhanced variant has no such guard: on the freshly loaded page, where no drug exists,
  a test click shows the spinner, disables the button, builds and trains the model and
  stores it, and only then fails with a TypeError on \<^verbatim>\<open>currentDrug.structure\<close>.
\<close>

theorem test_before_create_enhanced:
  "testBtn_click_enhanced trained g loaded
     = (Some TypeError,
        loaded\<lparr>testBtn_disabled := True, model := Some trained, trainings := 1,
               spinner_hidden := False\<rparr>, g)"
  by (simp add: testBtn_click_enhanced_def loaded_def)


section \<open>The encoding of the structure\<close>

lemma fold_update_upt:
  "n \<le> length codes \<Longrightarrow>
   fold (\<lambda>i cs. cs[i := f i]) [0 ..< n] codes = map f [0 ..< n] @ drop n codes"
proof (induction n)
  case 0
  then show ?case by simp
next
  case (Suc n)
  then have "fold (\<lambda>i cs. cs[i := f i]) [0 ..< Suc n] codes
      = (map f [0 ..< n] @ drop n codes)[n := f n]" by simp
  also have "\<dots> = map f [0 ..< n] @ (drop n codes)[0 := f n]"
    by (simp add: list_update_append)
  also have "(drop n codes)[0 := f n] = f n # drop (Suc n) codes"
    using Suc.prems by (simp add: Cons_nth_drop_Suc [symmetric])
  finally show ?case by simp
qed

lemma encodeMolecule_eq:
  "encodeMolecule str =
     map (\<lambda>i. of_nat (unat (str ! i)) / 255) [0 ..< min (length str) 10]
     @ replicate (10 - min (length str) 10) 0"
  unfolding encodeMolecule_def Let_def
  by (subst fold_update_upt) simp_all

text \<open>
  What holds of the claim for every string: ten entries, the code unit over 255 at the
  positions of the first ten code units, zero behind the end of a shorter string.
\<close>

lemma encodeMolecule_shape:
  "length (encodeMolecule str) = 10
   \<and> (\<forall>i < min (length str) 10. encodeMolecule str ! i = of_nat (unat (str ! i)) / 255)
   \<and> (\<forall>i. length str \<le> i \<and> i < 10 \<longrightarrow> encodeMolecule str ! i = 0)"
  by (auto simp: encodeMolecule_eq nth_append)

text \<open>The entries lie in \<open>[0, 1]\<close> when every code unit is at most 255.\<close>

lemma encodeMolecule_latin1:
  assumes "\<forall>c\<in>set str. unat c \<le> 255" and "i < 10"
  shows "0 \<le> encodeMolecule str ! i \<and> encodeMolecule str ! i \<le> 1"
proof (cases "i < length str")
  case True
  then have "unat (str ! i) \<le> 255" using assms(1) by simp
  then have "(of_nat (unat (str ! i)) :: real) \<le> of_nat 255" by (rule of_nat_mono)
  then have b: "(of_nat (unat (str ! i)) :: real) / 255 \<le> 1" by simp
  have e: "encodeMolecule str ! i = of_nat (unat (str ! i)) / 255"
    using True assms(2) encodeMolecule_shape [of str] by simp
  have z: "0 \<le> (of_nat (unat (str ! i)) :: real)" by (rule of_nat_0_le_iff)
  show ?thesis unfolding e using b z by simp
next
  case False
  then show ?thesis using assms(2) encodeMolecule_shape [of str] by simp
qed

text \<open>
  C7. The claim's length, zero fill and truncation hold (\<open>encodeMolecule_shape\<close>), its
  interval does not: the divisor 255 normalises code units up to 255 only. For the
  structure of the one-letter input \<^verbatim>\<open>U+03BB\<close> (Greek small lambda), the first entry
  is \<open>955 / 255\<close>, above 1.
\<close>

theorem encodeMolecule_exceeds_unit_interval:
  "encodeMolecule ([0x3BB] @ js ''-MOL'')
     = [191 / 51, 3 / 17, 77 / 255, 79 / 255, 76 / 255, 0, 0, 0, 0, 0]
   \<and> 1 < encodeMolecule ([0x3BB] @ js ''-MOL'') ! 0"
  by (simp add: encodeMolecule_eq js_def) (simp add: numeral_eq_Suc)

section \<open>The generated drug\<close>

lemma structure_basic: "structure (simulateDrugCreation_basic r36 s) = rev s @ js ''-mol''"
  by (simp add: simulateDrugCreation_basic_def reverse_units)

lemma structure_enhanced:
  "fst (simulateDrugCreation_enhanced lib r36 g s) = Inr d \<Longrightarrow>
   structure d = rev s @ js ''-MOL''"
  by (auto simp: simulateDrugCreation_enhanced_def reverse_units Let_def
        split: prod.splits sum.splits)

text \<open>
  C1. Amended: for every input string \<open>s\<close>, the drug of the basic variant has the
  structure \<open>rev s\<close> followed by \<^verbatim>\<open>-mol\<close>, every drug the enhanced variant returns
  (whatever the library's shuffle does) has \<open>rev s\<close> followed by \<^verbatim>\<open>-MOL\<close>, and the
  length is that of \<open>s\<close> plus that of the suffix; the input \<^verbatim>\<open>caffeine\<close> yields
  \<^verbatim>\<open>enieffac-mol\<close> in the basic variant. The reversal is one of UTF-16 code units.
\<close>

theorem structure_reversed_with_suffix:
  "structure (simulateDrugCreation_basic r36 s) = rev s @ js ''-mol''
   \<and> length (structure (simulateDrugCreation_basic r36 s)) = length s + length (js ''-mol'')
   \<and> (\<forall>d. fst (simulateDrugCreation_enhanced lib r36 g s) = Inr d \<longrightarrow>
          structure d = rev s @ js ''-MOL''
          \<and> length (structure d) = length s + length (js ''-MOL''))
   \<and> structure (simulateDrugCreation_basic r36 (js ''caffeine'')) = js ''enieffac-mol''"
  using structure_enhanced [of lib r36 g s]
  by (auto simp: structure_basic) (simp add: js_def)

text \<open>
  The enhanced variant on \<^verbatim>\<open>caffeine\<close>, with a library call that returns an array
  and every draw one half.
\<close>

theorem structure_reversed_with_suffix_witness:
  "fst (simulateDrugCreation_enhanced returns_argument (js ''0.4fzyo82mvyr'')
          (const_draws (1 / 2)) (js ''caffeine''))
     = Inr \<lparr>name = js ''FX-4FZYO'', structure = js ''enieffac-MOL'', molWeight = js ''350.0'',
            logP = js ''2.00'', sideEffects = [js ''Nausea'', js ''Headache'', js ''Dizziness'']\<rparr>
   \<and> structure \<lparr>name = js ''FX-4FZYO'', structure = js ''enieffac-MOL'',
            molWeight = js ''350.0'', logP = js ''2.00'',
            sideEffects = [js ''Nausea'', js ''Headache'', js ''Dizziness'']\<rparr>
      = rev (js ''caffeine'') @ js ''-MOL''"
proof -
  have m: "toFixed (100 + 1 / 2 * 500) 1 = js ''350.0''"
    by (subst toFixed_1) (simp_all add: tenths_def dec_small dec_large digit_def js_def)
  have l: "toFixed (1 / 2 * 6 - 1) 2 = js ''2.00''"
    by (simp add: toFixed_def dec_small dec_large digit_def js_def Let_def)
  have r: "fst (simulateDrugCreation_enhanced returns_argument (js ''0.4fzyo82mvyr'')
          (const_draws (1 / 2)) (js ''caffeine''))
     = Inr \<lparr>name = js ''FX-4FZYO'', structure = js ''enieffac-MOL'', molWeight = js ''350.0'',
            logP = js ''2.00'', sideEffects = [js ''Nausea'', js ''Headache'', js ''Dizziness'']\<rparr>"
    using m l
    by (simp add: simulateDrugCreation_enhanced_def pickRandom_def returns_argument_def
          const_draws_def reverse_units side_effect_names_def slice_def Let_def)
       (simp add: js_def toUpperCase_def upper_unit_def)
  show ?thesis
    using structure_reversed_with_suffix [of "js ''0.4fzyo82mvyr''" "js ''caffeine''"
        returns_argument "const_draws (1 / 2)"] r
    by simp
qed

text \<open>The reversal of \<^verbatim>\<open>caffeine\<close> is \<^verbatim>\<open>enieffac\<close>, not \<^verbatim>\<open>eniaffac\<close>.\<close>

theorem structure_caffeine_counterexample:
  "structure (simulateDrugCreation_basic (js ''0.4fzyo82mvyr'') (js ''caffeine''))
     \<noteq> js ''eniaffac-mol''"
  by (simp add: structure_basic js_def)

lemma pickRandom_undefined: "fst (pickRandom tf_util_shuffle g arr n) = Inl TypeError"
  by (simp add: pickRandom_def tf_util_shuffle_def split: prod.splits)

text \<open>
  C10. The basic variant's \<^verbatim>\<open>simulateDrugCreation\<close> returns a drug for every string.
  The enhanced variant's does not return one for any: \<^verbatim>\<open>tf.util.shuffle\<close> returns
  \<^verbatim>\<open>undefined\<close>, so \<^verbatim>\<open>pickRandom\<close> throws a TypeError on \<^verbatim>\<open>.slice\<close> and
  \<^verbatim>\<open>simulateDrugCreation\<close> ends with that exception, for every input, every base-36
  rendering and every run of the generator.
\<close>

theorem creation_enhanced_throws:
  "fst (simulateDrugCreation_enhanced tf_util_shuffle r36 g input) = Inl TypeError"
  using pickRandom_undefined [of "rest (rest g)" side_effect_names 3]
  by (auto simp: simulateDrugCreation_enhanced_def Let_def split: prod.splits sum.splits)

text \<open>The token of the name is upper-case base 36 and never longer than five.\<close>

lemma upper_radix36: "is_radix36 c \<Longrightarrow> is_upper_alnum (upper_unit c)"
  unfolding is_radix36_def is_upper_alnum_def upper_unit_def
  by (auto simp: word_le_nat_alt unat_sub word_less_nat_alt)

lemma name_token_full:
  assumes "5 \<le> length (drop 2 r36)" "\<forall>c\<in>set (drop 2 r36). is_radix36 c"
  shows "\<exists>tok. name (simulateDrugCreation_basic r36 input) = js ''FX-'' @ tok
            \<and> length tok = 5 \<and> (\<forall>c\<in>set tok. is_upper_alnum c)"
proof -
  let ?tok = "toUpperCase (substr r36 2 5)"
  have "length ?tok = 5" using assms(1) by (simp add: toUpperCase_def substr_def)
  moreover have "\<forall>c\<in>set ?tok. is_upper_alnum c"
    using assms(2) by (auto simp: toUpperCase_def substr_def upper_radix36 dest: in_set_takeD)
  ultimately show ?thesis by (auto simp: simulateDrugCreation_basic_def)
qed

lemma name_token_at_most_5:
  "length (name (simulateDrugCreation_basic r36 input)) \<le> 8"
  by (simp add: simulateDrugCreation_basic_def js_def toUpperCase_def substr_def)

text \<open>
  C5. The name has a token of five characters only when the base-36 rendering of the
  draw has at least five digits after the point (\<open>name_token_full\<close>). For the draw 0.5,
  which \<^verbatim>\<open>toString(36)\<close> renders as \<^verbatim>\<open>0.i\<close>, the name is \<^verbatim>\<open>FX-I\<close>, with one
  character after the prefix, for every input.
\<close>

theorem name_token_short:
  "name (simulateDrugCreation_basic (js ''0.i'') input) = js ''FX-I''"
  by (simp add: simulateDrugCreation_basic_def js_def substr_def toUpperCase_def upper_unit_def)

end
